theory Spec2Isabelle
  imports Main "HOL-Library.Word"
begin

unbundle bit_operations_syntax

section \<open>Values, errors and the flight record\<close>

text \<open>
  A flight record is one JSON object of the \<open>DailyScores\<close> rows, as Python's
  \<open>json\<close> module parses it: a dict from strings to scalars. \<open>JNull\<close> is
  Python's \<open>None\<close>; a float is carried as its 64 bit pattern and only passed through.
\<close>

datatype json = JNull | JBool bool | JInt int | JFloat "64 word" | JStr string

text \<open>The value a Python scalar is bound to as an SQL parameter: a bool is an integer.\<close>

datatype sqlval = SNull | SInt int | SReal "64 word" | SText string

fun to_sql :: "json \<Rightarrow> sqlval" where
  "to_sql JNull = SNull"
| "to_sql (JBool b) = SInt (if b then 1 else 0)"
| "to_sql (JInt i) = SInt i"
| "to_sql (JFloat w) = SReal w"
| "to_sql (JStr s) = SText s"

text \<open>
  SQL's \<open>column = ?\<close>: never true when a side is NULL, equality of the stored
  values otherwise (values of one storage class; column affinity is not modelled).
\<close>

definition sql_eq :: "sqlval \<Rightarrow> sqlval \<Rightarrow> bool" where
  "sql_eq a b = (a \<noteq> SNull \<and> b \<noteq> SNull \<and> a = b)"

datatype error =
    KeyError string
  | TypeError
  | ValueError
  | IntegrityError
  | NotFound
  | ExistingFlight

type_synonym flight_details = "(string \<times> json) list"

text \<open>\<open>fd[k]\<close> raises KeyError on a missing key; \<open>fd.get(k)\<close> gives None.\<close>

definition dict_index :: "flight_details \<Rightarrow> string \<Rightarrow> error + json" where
  "dict_index fd k = (case map_of fd k of None \<Rightarrow> Inl (KeyError k) | Some v \<Rightarrow> Inr v)"

definition dict_get :: "flight_details \<Rightarrow> string \<Rightarrow> json" where
  "dict_get fd k = (case map_of fd k of None \<Rightarrow> JNull | Some v \<Rightarrow> v)"

section \<open>The database, the archive directory and the request log\<close>

type_synonym datetime = nat
type_synonym bytes = "8 word list"
type_synonym path = "string list"

record pilot_row =
  pilot_id :: int
  forename :: sqlval
  surname :: sqlval
  pilot_ladder_id :: sqlval

record club_row =
  club_id :: int
  club_name :: sqlval
  is_university :: sqlval
  ladder_code :: sqlval

record glider_model_row =
  glider_model_id :: int
  model_name :: sqlval
  seats :: sqlval
  vintage :: sqlval
  turbo :: sqlval
  handicap :: sqlval
  glider_model_ladder_id :: sqlval

record glider_row =
  glider_id :: int
  reg :: sqlval
  model :: int

record task_row =
  task_id :: int
  turnpoint_index :: int
  turnpoint_code :: sqlval

record trace_row =
  trace_id :: int
  downloaded_at :: datetime
  original_filename :: sqlval
  sha256_hash :: string

record flight_row =
  flight_id :: int
  flight_pilot :: int
  flight_club :: int
  flight_glider :: int
  flight_trace :: "int option"
  flight_date :: datetime
  scraped_at :: datetime
  is_weekend :: sqlval
  is_junior :: sqlval
  is_height :: sqlval
  is_two_seater :: sqlval
  is_wooden :: sqlval
  has_engine :: sqlval
  penalty :: sqlval
  flight_task :: int
  speed :: sqlval
  handicap_speed :: sqlval
  scoring_distance :: sqlval
  speed_points :: sqlval
  height_gain :: sqlval
  height_points :: sqlval
  total_points :: sqlval
  flight_ladder_id :: sqlval

text \<open>
  The two endpoints the scraper calls. \<open>FlightIGC v\<close> stands for the URL
  \<open>https://www.bgaladder.net/FlightIGC/{v}\<close>; \<open>DailyScores ps\<close> for
  \<open>https://www.bgaladder.net/API/DailyScores\<close> with the query parameters \<open>ps\<close>,
  in the order the dict holds them.
\<close>

datatype request = FlightIGC json | DailyScores "(string \<times> int) list"

record state =
  pilot :: "pilot_row list"
  club :: "club_row list"
  glider_model :: "glider_model_row list"
  glider :: "glider_row list"
  task :: "task_row list"
  trace :: "trace_row list"
  flight :: "flight_row list"
  files :: "path \<rightharpoonup> bytes"
  requests :: "request list"

definition empty_state :: state where
  "empty_state = \<lparr>pilot = [], club = [], glider_model = [], glider = [], task = [],
     trace = [], flight = [], files = Map.empty, requests = []\<rparr>"

section \<open>Sum-typed results\<close>

definition bind_err :: "error + 'a \<Rightarrow> ('a \<Rightarrow> error + 'b) \<Rightarrow> error + 'b" where
  "bind_err m f = (case m of Inl e \<Rightarrow> Inl e | Inr x \<Rightarrow> f x)"

text \<open>\<open>for x in xs: f(x)\<close>, stopped by the first exception.\<close>

fun for_each :: "('a \<Rightarrow> 's \<Rightarrow> error + 's) \<Rightarrow> 'a list \<Rightarrow> 's \<Rightarrow> error + 's" where
  "for_each f [] s = Inr s"
| "for_each f (x # xs) s = bind_err (f x s) (for_each f xs)"

section \<open>The storage layer\<close>

text \<open>
  Modelled from the spec: the schema (\<open>schema.sql\<close>) is not among the sources. The
  specification gives every table an auto-assigned local surrogate key, here the next
  rowid, and declares unique the columns \<open>pilot.ladder_id\<close>, \<open>club.ladder_code\<close>,
  \<open>glider_model.ladder_id\<close>, \<open>glider.reg\<close>, \<open>trace.sha256_hash\<close> and
  \<open>flight.ladder_id\<close>: an insert whose value for such a column equals a stored
  non-null one fails with an integrity error. The comment in \<open>get_or_create_pilot\<close>
  relies on the first of these constraints.
\<close>

definition next_rowid :: "int list \<Rightarrow> int" where
  "next_rowid ids = fold max ids 0 + 1"

definition insert_pilot :: "sqlval \<Rightarrow> sqlval \<Rightarrow> sqlval \<Rightarrow> state \<Rightarrow> error + state" where
  "insert_pilot fn sn lid st =
     (if list_ex (\<lambda>r. sql_eq (pilot_ladder_id r) lid) (pilot st) then Inl IntegrityError
      else Inr (st\<lparr>pilot := pilot st @
        [\<lparr>pilot_id = next_rowid (map pilot_id (pilot st)), forename = fn, surname = sn,
          pilot_ladder_id = lid\<rparr>]\<rparr>))"

definition insert_club :: "sqlval \<Rightarrow> state \<Rightarrow> error + state" where
  "insert_club code st =
     (if list_ex (\<lambda>r. sql_eq (ladder_code r) code) (club st) then Inl IntegrityError
      else Inr (st\<lparr>club := club st @
        [\<lparr>club_id = next_rowid (map club_id (club st)), club_name = SNull,
          is_university = SNull, ladder_code = code\<rparr>]\<rparr>))"

definition insert_glider_model :: "sqlval \<Rightarrow> sqlval \<Rightarrow> state \<Rightarrow> error + state" where
  "insert_glider_model name lid st =
     (if list_ex (\<lambda>r. sql_eq (glider_model_ladder_id r) lid) (glider_model st)
      then Inl IntegrityError
      else Inr (st\<lparr>glider_model := glider_model st @
        [\<lparr>glider_model_id = next_rowid (map glider_model_id (glider_model st)),
          model_name = name, seats = SNull, vintage = SNull, turbo = SNull, handicap = SNull,
          glider_model_ladder_id = lid\<rparr>]\<rparr>))"

definition insert_glider :: "sqlval \<Rightarrow> int \<Rightarrow> state \<Rightarrow> error + state" where
  "insert_glider r m st =
     (if list_ex (\<lambda>g. sql_eq (reg g) r) (glider st) then Inl IntegrityError
      else Inr (st\<lparr>glider := glider st @
        [\<lparr>glider_id = next_rowid (map glider_id (glider st)), reg = r, model = m\<rparr>]\<rparr>))"

definition insert_trace :: "datetime \<Rightarrow> sqlval \<Rightarrow> string \<Rightarrow> state \<Rightarrow> error + state" where
  "insert_trace at name h st =
     (if list_ex (\<lambda>t. sha256_hash t = h) (trace st) then Inl IntegrityError
      else Inr (st\<lparr>trace := trace st @
        [\<lparr>trace_id = next_rowid (map trace_id (trace st)), downloaded_at = at,
          original_filename = name, sha256_hash = h\<rparr>]\<rparr>))"

text \<open>
  \<open>cur.fetchone()[0]\<close> after a select of ids: the id of the first matching row, a
  TypeError when no row matches (\<open>None[0]\<close>).
\<close>

definition fetchone_id :: "int option \<Rightarrow> error + int" where
  "fetchone_id row = (case row of None \<Rightarrow> Inl TypeError | Some i \<Rightarrow> Inr i)"

section \<open>Entity Resolver\<close>

definition select_pilot :: "sqlval \<Rightarrow> sqlval \<Rightarrow> sqlval \<Rightarrow> state \<Rightarrow> int option" where
  "select_pilot fn sn lid st =
     map_option pilot_id
       (find (\<lambda>r. sql_eq (forename r) fn \<and> sql_eq (surname r) sn \<and> sql_eq (pilot_ladder_id r) lid)
         (pilot st))"

definition select_pilot_by_ladder_id :: "sqlval \<Rightarrow> state \<Rightarrow> int option" where
  "select_pilot_by_ladder_id lid st =
     map_option pilot_id (find (\<lambda>r. sql_eq (pilot_ladder_id r) lid) (pilot st))"

definition get_or_create_pilot :: "json \<Rightarrow> json \<Rightarrow> json \<Rightarrow> state \<Rightarrow> error + (int \<times> state)" where
  "get_or_create_pilot forename' surname' ladder_id st =
     (case select_pilot (to_sql forename') (to_sql surname') (to_sql ladder_id) st of
        Some existing \<Rightarrow> Inr (existing, st)
      | None \<Rightarrow>
          bind_err (insert_pilot (to_sql forename') (to_sql surname') (to_sql ladder_id) st)
            (\<lambda>st'. bind_err (fetchone_id (select_pilot_by_ladder_id (to_sql ladder_id) st'))
              (\<lambda>i. Inr (i, st'))))"

definition select_club :: "sqlval \<Rightarrow> state \<Rightarrow> int option" where
  "select_club code st = map_option club_id (find (\<lambda>r. sql_eq (ladder_code r) code) (club st))"

definition get_or_create_club :: "json \<Rightarrow> state \<Rightarrow> error + (int \<times> state)" where
  "get_or_create_club bgal_club_code st =
     (case select_club (to_sql bgal_club_code) st of
        Some existing \<Rightarrow> Inr (existing, st)
      | None \<Rightarrow>
          bind_err (insert_club (to_sql bgal_club_code) st)
            (\<lambda>st'. bind_err (fetchone_id (select_club (to_sql bgal_club_code) st'))
              (\<lambda>i. Inr (i, st'))))"

definition select_glider_model_by_name :: "sqlval \<Rightarrow> state \<Rightarrow> int option" where
  "select_glider_model_by_name name st =
     map_option glider_model_id (find (\<lambda>r. sql_eq (model_name r) name) (glider_model st))"

definition select_glider_model_by_ladder_id :: "sqlval \<Rightarrow> state \<Rightarrow> int option" where
  "select_glider_model_by_ladder_id lid st =
     map_option glider_model_id
       (find (\<lambda>r. sql_eq (glider_model_ladder_id r) lid) (glider_model st))"

definition get_or_create_glider_model :: "json \<Rightarrow> json \<Rightarrow> state \<Rightarrow> error + (int \<times> state)" where
  "get_or_create_glider_model model_name' bgal_model_id st =
     (case select_glider_model_by_name (to_sql model_name') st of
        Some existing \<Rightarrow> Inr (existing, st)
      | None \<Rightarrow>
          bind_err (insert_glider_model (to_sql model_name') (to_sql bgal_model_id) st)
            (\<lambda>st'. bind_err
                (fetchone_id (select_glider_model_by_ladder_id (to_sql bgal_model_id) st'))
              (\<lambda>i. Inr (i, st'))))"

definition select_glider :: "sqlval \<Rightarrow> state \<Rightarrow> int option" where
  "select_glider r st = map_option glider_id (find (\<lambda>g. sql_eq (reg g) r) (glider st))"

definition get_or_create_glider :: "json \<Rightarrow> int \<Rightarrow> state \<Rightarrow> error + (int \<times> state)" where
  "get_or_create_glider reg' model_id st =
     (case select_glider (to_sql reg') st of
        Some existing \<Rightarrow> Inr (existing, st)
      | None \<Rightarrow>
          bind_err (insert_glider (to_sql reg') model_id st)
            (\<lambda>st'. bind_err (fetchone_id (select_glider (to_sql reg') st'))
              (\<lambda>i. Inr (i, st'))))"

section \<open>SHA-256\<close>

text \<open>
  \<open>hashlib.sha256(bs).hexdigest()\<close>, the library function the Trace Archiver calls,
  after FIPS 180-4: 32 bit words, addition modulo \<open>2^32\<close>.
\<close>

text \<open>
  The constants of the standard: the first 32 bits of the fractional parts of the cube
  roots of the first 64 primes, and of the square roots of the first 8 primes for the
  initial hash value. \<open>iroot k b n 0\<close> is the integer \<open>k\<close>-th root of \<open>n\<close>, found bit
  by bit from bit \<open>b - 1\<close> down.
\<close>

function no_divisor :: "nat \<Rightarrow> nat \<Rightarrow> bool" where
  "no_divisor n d =
     (if n < d * d \<or> d = 0 then True else if n mod d = 0 then False else no_divisor n (Suc d))"
  by pat_completeness auto
termination
proof (relation "measure (\<lambda>(n, d). Suc n - d)")
  show "wf (measure (\<lambda>(n, d). Suc n - d))" by simp
next
  fix n d :: nat
  assume a: "\<not> (n < d * d \<or> d = 0)" and "n mod d \<noteq> 0"
  then have "d * d \<le> n" "0 < d" by simp_all
  then have "d * 1 \<le> n" by (metis One_nat_def Suc_leI le_trans mult_le_mono2)
  then show "((n, Suc d), (n, d)) \<in> measure (\<lambda>(n, d). Suc n - d)" by simp
qed

definition is_prime :: "nat \<Rightarrow> bool" where
  "is_prime n = (1 < n \<and> no_divisor n 2)"

definition first_primes :: "nat list" where
  "first_primes = filter is_prime [2..<312]"

fun iroot :: "nat \<Rightarrow> nat \<Rightarrow> int \<Rightarrow> int \<Rightarrow> int" where
  "iroot k 0 n r = r"
| "iroot k (Suc b) n r = iroot k b n (if (r + 2 ^ b) ^ k \<le> n then r + 2 ^ b else r)"

definition frac_root :: "nat \<Rightarrow> nat \<Rightarrow> 32 word" where
  "frac_root k p = word_of_int (iroot k 36 (int p * 2 ^ (32 * k)) 0)"

definition K256 :: "32 word list" where
  "K256 = map (frac_root 3) first_primes"

definition H256 :: "32 word list" where
  "H256 = map (frac_root 2) (take 8 first_primes)"

definition rotr :: "nat \<Rightarrow> 32 word \<Rightarrow> 32 word" where
  "rotr n x = drop_bit n x OR push_bit (32 - n) x"

definition Ch :: "32 word \<Rightarrow> 32 word \<Rightarrow> 32 word \<Rightarrow> 32 word" where
  "Ch x y z = (x AND y) XOR (NOT x AND z)"

definition Maj :: "32 word \<Rightarrow> 32 word \<Rightarrow> 32 word \<Rightarrow> 32 word" where
  "Maj x y z = (x AND y) XOR (x AND z) XOR (y AND z)"

definition Sigma0 :: "32 word \<Rightarrow> 32 word" where
  "Sigma0 x = rotr 2 x XOR rotr 13 x XOR rotr 22 x"

definition Sigma1 :: "32 word \<Rightarrow> 32 word" where
  "Sigma1 x = rotr 6 x XOR rotr 11 x XOR rotr 25 x"

definition sigma0 :: "32 word \<Rightarrow> 32 word" where
  "sigma0 x = rotr 7 x XOR rotr 18 x XOR drop_bit 3 x"

definition sigma1 :: "32 word \<Rightarrow> 32 word" where
  "sigma1 x = rotr 17 x XOR rotr 19 x XOR drop_bit 10 x"

text \<open>
  Padding to a multiple of 64 bytes: the byte 0x80, zero bytes, and the message length in
  bits as 8 big-endian bytes.
\<close>

definition sha256_pad :: "8 word list \<Rightarrow> 8 word list" where
  "sha256_pad m =
     m @ [0x80] @ replicate ((64 - (length m + 9) mod 64) mod 64) 0
       @ map (\<lambda>i. ucast (drop_bit (8 * (7 - i)) (word_of_nat (8 * length m) :: 64 word)))
           [0..<8]"

definition be32 :: "8 word list \<Rightarrow> 32 word" where
  "be32 bs = foldl (\<lambda>acc b. push_bit 8 acc OR ucast b) 0 bs"

fun be32s :: "nat \<Rightarrow> 8 word list \<Rightarrow> 32 word list" where
  "be32s 0 bs = []"
| "be32s (Suc n) bs = be32 (take 4 bs) # be32s n (drop 4 bs)"

fun schedule :: "nat \<Rightarrow> 32 word list \<Rightarrow> 32 word list" where
  "schedule 0 w = w"
| "schedule (Suc n) w =
     schedule n (w @ [sigma1 (w ! (length w - 2)) + w ! (length w - 7)
        + sigma0 (w ! (length w - 15)) + w ! (length w - 16)])"

fun sha256_round :: "32 word \<times> 32 word \<Rightarrow> 32 word list \<Rightarrow> 32 word list" where
  "sha256_round (k, w) [a, b, c, d, e, f, g, h] =
     (let t1 = h + Sigma1 e + Ch e f g + k + w;
          t2 = Sigma0 a + Maj a b c
      in [t1 + t2, a, b, c, d + t1, e, f, g])"
| "sha256_round (k, w) s = s"

definition sha256_block :: "32 word list \<Rightarrow> 8 word list \<Rightarrow> 32 word list" where
  "sha256_block hs block =
     map2 (+) hs (fold sha256_round (zip K256 (schedule 48 (be32s 16 block))) hs)"

fun sha256_blocks :: "nat \<Rightarrow> 32 word list \<Rightarrow> 8 word list \<Rightarrow> 32 word list" where
  "sha256_blocks 0 hs bs = hs"
| "sha256_blocks (Suc n) hs bs = sha256_blocks n (sha256_block hs (take 64 bs)) (drop 64 bs)"

definition sha256 :: "8 word list \<Rightarrow> 32 word list" where
  "sha256 m = sha256_blocks (length (sha256_pad m) div 64) H256 (sha256_pad m)"

text \<open>\<open>hexdigest()\<close>: eight lowercase hexadecimal digits per word, most significant first.\<close>

definition hex_digit :: "nat \<Rightarrow> char" where
  "hex_digit n = ''0123456789abcdef'' ! n"

definition hex32 :: "32 word \<Rightarrow> string" where
  "hex32 w = map (\<lambda>i. hex_digit (unat (drop_bit (4 * (7 - i)) w AND 15))) [0..<8]"

definition sha256_hexdigest :: "8 word list \<Rightarrow> string" where
  "sha256_hexdigest m = concat (map hex32 (sha256 m))"

section \<open>Task Decomposer\<close>

text \<open>Python's \<open>str(i)\<close> for a non-negative integer, used by \<open>f"TP{i}"\<close>.\<close>

definition digit_char :: "nat \<Rightarrow> char" where
  "digit_char d = ''0123456789'' ! d"

function show_nat :: "nat \<Rightarrow> string" where
  "show_nat n = (if n < 10 then [digit_char n] else show_nat (n div 10) @ [digit_char (n mod 10)])"
  by pat_completeness auto
termination
  by (relation "measure id") auto

declare show_nat.simps [simp del]

definition tp_key :: "nat \<Rightarrow> string" where
  "tp_key i = ''TP'' @ show_nat i"

text \<open>
  The closure \<open>maybe_append\<close> of \<open>insert_task\<close>: the list it appends to is passed
  in and returned.
\<close>

definition maybe_append :: "json \<Rightarrow> json list \<Rightarrow> bool \<times> json list" where
  "maybe_append code turnpoint_codes =
     (if code = JNull \<or> code = JStr [] then (False, turnpoint_codes)
      else (True, turnpoint_codes @ [code]))"

lemma digit_char_inj: "a < 10 \<Longrightarrow> b < 10 \<Longrightarrow> digit_char a = digit_char b \<Longrightarrow> a = b"
  by (simp add: digit_char_def nth_eq_iff_index_eq)

lemma show_nat_not_Nil: "show_nat n \<noteq> []" "[] \<noteq> show_nat n"
  by (subst show_nat.simps, simp)+

lemma show_nat_inj: "show_nat m = show_nat n \<Longrightarrow> m = n"
proof (induction m arbitrary: n rule: show_nat.induct)
  case (1 m)
  show ?case
  proof (cases "m < 10")
    case True
    have m: "show_nat m = [digit_char m]"
      using True by (subst show_nat.simps) simp
    show ?thesis
    proof (cases "n < 10")
      case n: True
      have "show_nat n = [digit_char n]"
        using n by (subst show_nat.simps) simp
      with m "1.prems" True n show ?thesis
        by (simp add: digit_char_inj)
    next
      case False
      then have "show_nat n = show_nat (n div 10) @ [digit_char (n mod 10)]"
        by (subst show_nat.simps) simp
      with m "1.prems" show ?thesis
        by (simp add: show_nat_not_Nil)
    qed
  next
    case False
    have m: "show_nat m = show_nat (m div 10) @ [digit_char (m mod 10)]"
      using False by (subst show_nat.simps) simp
    show ?thesis
    proof (cases "n < 10")
      case True
      then have "show_nat n = [digit_char n]"
        by (subst show_nat.simps) simp
      with m "1.prems" show ?thesis
        by (simp add: show_nat_not_Nil)
    next
      case n: False
      have "show_nat n = show_nat (n div 10) @ [digit_char (n mod 10)]"
        using n by (subst show_nat.simps) simp
      with m "1.prems" have eq: "show_nat (m div 10) = show_nat (n div 10)"
        and d: "digit_char (m mod 10) = digit_char (n mod 10)"
        by simp_all
      from "1.IH" [OF False eq] have "m div 10 = n div 10" .
      moreover from d have "m mod 10 = n mod 10"
        by (intro digit_char_inj) simp_all
      ultimately show ?thesis
        by (metis div_mult_mod_eq)
    qed
  qed
qed

lemma tp_key_inj: "tp_key i = tp_key j \<Longrightarrow> i = j"
  by (simp add: tp_key_def show_nat_inj)

lemma maybe_append_True_key:
  "fst (maybe_append (dict_get fd k) codes) \<Longrightarrow> k \<in> fst ` set fd"
  by (auto simp: maybe_append_def dict_get_def rev_image_eqI
           split: option.splits if_splits dest!: map_of_SomeD)

lemma finite_tp_indices: "finite {j. tp_key j \<in> fst ` set fd}"
proof -
  have "inj tp_key"
    by (rule injI) (rule tp_key_inj)
  then have "finite (tp_key -` (fst ` set fd))"
    by (intro finite_vimageI) simp_all
  then show ?thesis
    by (simp add: vimage_def)
qed

text \<open>
  The scan \<open>for i in itertools.count(1)\<close>: it ends at the first key \<open>TPi\<close> that is
  missing, null or empty. A dict has finitely many keys, so it ends.
\<close>

function tp_loop :: "flight_details \<Rightarrow> nat \<Rightarrow> json list \<Rightarrow> json list" where
  "tp_loop fd i turnpoint_codes =
     (if fst (maybe_append (dict_get fd (tp_key i)) turnpoint_codes)
      then tp_loop fd (Suc i) (snd (maybe_append (dict_get fd (tp_key i)) turnpoint_codes))
      else snd (maybe_append (dict_get fd (tp_key i)) turnpoint_codes))"
  by pat_completeness auto
termination
proof (relation "measure (\<lambda>(fd, i, codes). card {j. i \<le> j \<and> tp_key j \<in> fst ` set fd})")
  show "wf (measure (\<lambda>(fd, i, codes). card {j. i \<le> j \<and> tp_key j \<in> fst ` set fd}))"
    by simp
next
  fix fd :: flight_details and i :: nat and turnpoint_codes :: "json list"
  assume "fst (maybe_append (dict_get fd (tp_key i)) turnpoint_codes)"
  then have mem: "tp_key i \<in> fst ` set fd"
    by (rule maybe_append_True_key)
  have fin: "finite {j. i \<le> j \<and> tp_key j \<in> fst ` set fd}"
    by (rule finite_subset [OF _ finite_tp_indices]) auto
  have "i \<in> {j. i \<le> j \<and> tp_key j \<in> fst ` set fd}"
    and "i \<notin> {j. Suc i \<le> j \<and> tp_key j \<in> fst ` set fd}"
    using mem by simp_all
  moreover have "{j. Suc i \<le> j \<and> tp_key j \<in> fst ` set fd}
      \<subseteq> {j. i \<le> j \<and> tp_key j \<in> fst ` set fd}"
    by auto
  ultimately have "{j. Suc i \<le> j \<and> tp_key j \<in> fst ` set fd}
      \<subset> {j. i \<le> j \<and> tp_key j \<in> fst ` set fd}"
    by blast
  then have "card {j. Suc i \<le> j \<and> tp_key j \<in> fst ` set fd}
      < card {j. i \<le> j \<and> tp_key j \<in> fst ` set fd}"
    using fin by (rule psubset_card_mono [rotated])
  then show "((fd, Suc i, snd (maybe_append (dict_get fd (tp_key i)) turnpoint_codes)),
      (fd, i, turnpoint_codes))
    \<in> measure (\<lambda>(fd, i, codes). card {j. i \<le> j \<and> tp_key j \<in> fst ` set fd})"
    by simp
qed

declare tp_loop.simps [simp del]

text \<open>The turnpoint list \<open>insert_task\<close> builds before it writes the rows.\<close>

definition turnpoint_codes_of :: "flight_details \<Rightarrow> json list" where
  "turnpoint_codes_of fd =
     (let c1 = snd (maybe_append (dict_get fd ''StartPoint'') []);
          c2 = tp_loop fd 1 c1
      in snd (maybe_append (dict_get fd ''FinishPoint'') c2))"

text \<open>
  \<open>select count(distinct id) from task\<close>, then one row per turnpoint by
  \<open>enumerate\<close>. The task table's own constraints are not in the repository's
  Python source; none is modelled.
\<close>

definition count_distinct_task_ids :: "state \<Rightarrow> int" where
  "count_distinct_task_ids st = int (length (remdups (map task_id (task st))))"

definition task_rows :: "int \<Rightarrow> json list \<Rightarrow> task_row list" where
  "task_rows tid codes =
     map (\<lambda>(i, code). \<lparr>task_id = tid, turnpoint_index = int i, turnpoint_code = to_sql code\<rparr>)
       (enumerate 0 codes)"

definition insert_task :: "flight_details \<Rightarrow> state \<Rightarrow> int \<times> state" where
  "insert_task fd st =
     (let tid = count_distinct_task_ids st;
          codes = turnpoint_codes_of fd
      in (tid, st\<lparr>task := task st @ task_rows tid codes\<rparr>))"

section \<open>Fetch Client and clock\<close>

text \<open>
  What lies outside the program: the ladder service (\<open>http w req\<close> is the response to
  a request, \<open>None\<close> for a status other than 200), the wall clock, read once per
  \<open>datetime.now()\<close> and here a function of the number of requests issued so far, and
  the library's \<open>datetime.strptime\<close> with the format \<open>%Y-%m-%dT%H:%M:%S\<close>
  (\<open>None\<close> for a string it rejects). A response carries its raw bytes and the list
  under \<open>"rows"\<close> of its JSON document. The throttle only delays and is left out.
\<close>

record response =
  content :: bytes
  json_rows :: "flight_details list"

record world =
  http :: "request \<Rightarrow> response option"
  clock :: "nat \<Rightarrow> datetime"
  strptime :: "string \<Rightarrow> datetime option"

definition now :: "world \<Rightarrow> state \<Rightarrow> datetime" where
  "now w st = clock w (length (requests st))"

definition requests_get :: "world \<Rightarrow> request \<Rightarrow> state \<Rightarrow> (error + response) \<times> state" where
  "requests_get w req st =
     ((case http w req of None \<Rightarrow> Inl NotFound | Some r \<Rightarrow> Inr r),
      st\<lparr>requests := requests st @ [req]\<rparr>)"

section \<open>Trace Archiver\<close>

definition select_trace :: "string \<Rightarrow> state \<Rightarrow> int option" where
  "select_trace h st = map_option trace_id (find (\<lambda>t. sha256_hash t = h) (trace st))"

text \<open>\<open>Path(h[0], h[1], h)\<close> joined to the archive root.\<close>

definition archive_path :: "string \<Rightarrow> path" where
  "archive_path h = [[h ! 0], [h ! 1], h]"

definition write_file :: "path \<Rightarrow> bytes \<Rightarrow> state \<Rightarrow> state" where
  "write_file p bs st = st\<lparr>files := (files st)(p \<mapsto> bs)\<rparr>"

definition download_and_archive_trace ::
  "world \<Rightarrow> path \<Rightarrow> flight_details \<Rightarrow> state \<Rightarrow> error + (int option \<times> state)" where
  "download_and_archive_trace w archive_root fd st =
     bind_err (dict_index fd ''FlightID'') (\<lambda>flight_id'.
     bind_err (dict_index fd ''LoggerFile'') (\<lambda>original_filename'.
       let downloaded_at' = now w st;
           (r, st1) = requests_get w (FlightIGC flight_id') st
       in case r of
            Inl e \<Rightarrow> Inr (None, st1)
          | Inr resp \<Rightarrow>
              let sha256_hash' = sha256_hexdigest (content resp)
              in case select_trace sha256_hash' st1 of
                   Some existing \<Rightarrow> Inr (Some existing, st1)
                 | None \<Rightarrow>
                     let full_path = archive_root @ archive_path sha256_hash';
                         st2 = write_file full_path (content resp) st1
                     in bind_err
                          (insert_trace downloaded_at' (to_sql original_filename') sha256_hash' st2)
                          (\<lambda>st3. bind_err (fetchone_id (select_trace sha256_hash' st3))
                            (\<lambda>i. Inr (Some i, st3)))))"

section \<open>Flight Ingestor\<close>

text \<open>Python's truth value of a scalar, for \<open>fd["Wood"] or fd["Wooden"]\<close>.\<close>

fun truthy :: "json \<Rightarrow> bool" where
  "truthy JNull = False"
| "truthy (JBool b) = b"
| "truthy (JInt i) = (i \<noteq> 0)"
| "truthy (JFloat x) = (x \<noteq> 0 \<and> x \<noteq> 0x8000000000000000)"
| "truthy (JStr s) = (s \<noteq> [])"

definition wood_or_wooden :: "flight_details \<Rightarrow> error + json" where
  "wood_or_wooden fd =
     bind_err (dict_index fd ''Wood'')
       (\<lambda>v. if truthy v then Inr v else dict_index fd ''Wooden'')"

definition parse_flight_date :: "world \<Rightarrow> json \<Rightarrow> error + datetime" where
  "parse_flight_date w v =
     (case v of
        JStr s \<Rightarrow> (case strptime w s of None \<Rightarrow> Inl ValueError | Some d \<Rightarrow> Inr d)
      | _ \<Rightarrow> Inl TypeError)"

definition select_flight :: "sqlval \<Rightarrow> state \<Rightarrow> int option" where
  "select_flight lid st =
     map_option flight_id (find (\<lambda>f. sql_eq (flight_ladder_id f) lid) (flight st))"

text \<open>
  The parameter tuple of the insert into \<open>flight\<close>, its fields read in the order the
  source lists them, and the insert itself.
\<close>

definition insert_flight ::
  "flight_details \<Rightarrow> int \<Rightarrow> int \<Rightarrow> int \<Rightarrow> int option \<Rightarrow> datetime \<Rightarrow> datetime \<Rightarrow> int \<Rightarrow> json
    \<Rightarrow> state \<Rightarrow> error + state" where
  "insert_flight fd pilot_id' club_id' glider_id' trace_id' flight_date' scraped_at' task_id'
      ladder_id st =
     bind_err (dict_index fd ''Weekend'') (\<lambda>weekend.
     bind_err (dict_index fd ''Junior'') (\<lambda>junior.
     bind_err (dict_index fd ''Height'') (\<lambda>height.
     bind_err (dict_index fd ''TwoSeater'') (\<lambda>two_seater.
     bind_err (wood_or_wooden fd) (\<lambda>wooden.
     bind_err (dict_index fd ''Engine'') (\<lambda>engine.
     bind_err (dict_index fd ''Penalty'') (\<lambda>penalty'.
     bind_err (dict_index fd ''Speed'') (\<lambda>speed'.
     bind_err (dict_index fd ''HandicapSpeed'') (\<lambda>handicap_speed'.
     bind_err (dict_index fd ''ScoringDistance'') (\<lambda>scoring_distance'.
     bind_err (dict_index fd ''SpeedPoints'') (\<lambda>speed_points'.
     bind_err (dict_index fd ''HeightGain'') (\<lambda>height_gain'.
     bind_err (dict_index fd ''HeightPoints'') (\<lambda>height_points'.
     bind_err (dict_index fd ''TotalPoints'') (\<lambda>total_points'.
       if list_ex (\<lambda>f. sql_eq (flight_ladder_id f) (to_sql ladder_id)) (flight st)
       then Inl IntegrityError
       else Inr (st\<lparr>flight := flight st @
         [\<lparr>flight_id = next_rowid (map flight_id (flight st)),
           flight_pilot = pilot_id', flight_club = club_id', flight_glider = glider_id',
           flight_trace = trace_id', flight_date = flight_date', scraped_at = scraped_at',
           is_weekend = to_sql weekend, is_junior = to_sql junior, is_height = to_sql height,
           is_two_seater = to_sql two_seater, is_wooden = to_sql wooden,
           has_engine = to_sql engine, penalty = to_sql penalty', flight_task = task_id',
           speed = to_sql speed', handicap_speed = to_sql handicap_speed',
           scoring_distance = to_sql scoring_distance', speed_points = to_sql speed_points',
           height_gain = to_sql height_gain', height_points = to_sql height_points',
           total_points = to_sql total_points',
           flight_ladder_id = to_sql ladder_id\<rparr>]\<rparr>)))))))))))))))"

definition insert_bga_flight ::
  "world \<Rightarrow> path \<Rightarrow> flight_details \<Rightarrow> datetime \<Rightarrow> state \<Rightarrow> error + state" where
  "insert_bga_flight w archive_root fd scraped_at' st =
     bind_err (dict_index fd ''FlightID'') (\<lambda>ladder_id.
       if select_flight (to_sql ladder_id) st \<noteq> None then Inl ExistingFlight
       else
     bind_err (dict_index fd ''Forename'') (\<lambda>forename'.
     bind_err (dict_index fd ''Surname'') (\<lambda>surname'.
     bind_err (dict_index fd ''PilotID'') (\<lambda>pilot_ladder_id'.
     bind_err (get_or_create_pilot forename' surname' pilot_ladder_id' st) (\<lambda>(pilot_id', st1).
     bind_err (dict_index fd ''ClubID'') (\<lambda>club_code.
     bind_err (get_or_create_club club_code st1) (\<lambda>(club_id', st2).
     bind_err (dict_index fd ''Glider'') (\<lambda>glider_name.
     bind_err (dict_index fd ''GliderCode'') (\<lambda>glider_code.
     bind_err (get_or_create_glider_model glider_name glider_code st2) (\<lambda>(glider_model_id', st3).
     bind_err (dict_index fd ''Registration'') (\<lambda>registration.
     bind_err (get_or_create_glider registration glider_model_id' st3) (\<lambda>(glider_id', st4).
     bind_err (download_and_archive_trace w archive_root fd st4) (\<lambda>(trace_id', st5).
       let (task_id', st6) = insert_task fd st5 in
     bind_err (dict_index fd ''FlightDate'') (\<lambda>date_field.
     bind_err (parse_flight_date w date_field) (\<lambda>flight_date'.
       insert_flight fd pilot_id' club_id' glider_id' trace_id' flight_date' scraped_at'
         task_id' ladder_id st6)))))))))))))))"

section \<open>Pagination Driver\<close>

text \<open>\<open>params[k] = v\<close> on a dict that keeps insertion order.\<close>

definition dict_set :: "string \<Rightarrow> int \<Rightarrow> (string \<times> int) list \<Rightarrow> (string \<times> int) list" where
  "dict_set k v d =
     (if k \<in> fst ` set d then map (\<lambda>(k', v'). if k' = k then (k, v) else (k', v')) d
      else d @ [(k, v)])"

text \<open>
  The loop \<open>for page in itertools.count(1)\<close> of \<open>get_daily_flights\<close>. It has no
  bound: a source that never returns a short page keeps it running, and the result is
  then \<open>None\<close>. The callback's own variables are the first component of the state it
  is passed.
\<close>

partial_function (option) get_daily_flights_loop ::
  "world \<Rightarrow> (datetime \<Rightarrow> flight_details \<Rightarrow> 'c \<times> state \<Rightarrow> error + 'c \<times> state) \<Rightarrow> int
    \<Rightarrow> (string \<times> int) list \<Rightarrow> int \<Rightarrow> int \<Rightarrow> 'c \<times> state
    \<Rightarrow> (error + int \<times> 'c \<times> state) option" where
  "get_daily_flights_loop w process page_size params page total_found cs =
     (case fst (requests_get w (DailyScores (dict_set ''page'' page params)) (snd cs)) of
        Inl e \<Rightarrow> Some (Inl e)
      | Inr r \<Rightarrow>
          (case for_each
                  (process (now w
                    (snd (requests_get w (DailyScores (dict_set ''page'' page params)) (snd cs)))))
                  (json_rows r)
                  (fst cs,
                   snd (requests_get w (DailyScores (dict_set ''page'' page params)) (snd cs))) of
             Inl e \<Rightarrow> Some (Inl e)
           | Inr cs' \<Rightarrow>
               if int (length (json_rows r)) < page_size
               then Some (Inr (total_found + int (length (json_rows r)), cs'))
               else get_daily_flights_loop w process page_size
                      (dict_set ''page'' page params) (page + 1)
                      (total_found + int (length (json_rows r))) cs'))"

definition get_daily_flights ::
  "world \<Rightarrow> (datetime \<Rightarrow> flight_details \<Rightarrow> 'c \<times> state \<Rightarrow> error + 'c \<times> state)
    \<Rightarrow> int option \<Rightarrow> int option \<Rightarrow> int option \<Rightarrow> int \<Rightarrow> 'c \<times> state
    \<Rightarrow> (error + int \<times> 'c \<times> state) option" where
  "get_daily_flights w process query_season query_month query_day page_size cs =
     (let params = [(''rows'', page_size)];
          params = (case query_season of None \<Rightarrow> params | Some v \<Rightarrow> dict_set ''Season'' v params);
          params = (case query_month of None \<Rightarrow> params | Some v \<Rightarrow> dict_set ''Month'' v params);
          params = (case query_day of None \<Rightarrow> params | Some v \<Rightarrow> dict_set ''Day'' v params)
      in get_daily_flights_loop w process page_size params 1 0 cs)"

section \<open>Day scrape\<close>

record date =
  year :: int
  month :: int
  day :: int

text \<open>
  The callback of \<open>scrape_day\<close>: its \<open>nonlocal new_flights\<close> is the counter paired
  with the state. ExistingFlight is raised before anything is changed, so the state goes
  on as it was; every other exception leaves the scrape.
\<close>

definition scrape_process ::
  "world \<Rightarrow> path \<Rightarrow> datetime \<Rightarrow> flight_details \<Rightarrow> int \<times> state \<Rightarrow> error + int \<times> state" where
  "scrape_process w archive_root scraped_at' fd cs =
     (case insert_bga_flight w archive_root fd scraped_at' (snd cs) of
        Inr st' \<Rightarrow> Inr (fst cs + 1, st')
      | Inl ExistingFlight \<Rightarrow> Inr cs
      | Inl e \<Rightarrow> Inl e)"

definition scrape_day ::
  "world \<Rightarrow> path \<Rightarrow> date \<Rightarrow> state \<Rightarrow> (error + (int \<times> int) \<times> state) option" where
  "scrape_day w archive_root query_date st =
     (case get_daily_flights w (scrape_process w archive_root)
             (Some (year query_date)) (Some (day query_date)) (Some (day query_date)) 100
             (0, st) of
        None \<Rightarrow> None
      | Some (Inl e) \<Rightarrow> Some (Inl e)
      | Some (Inr (total_found, new_flights, st')) \<Rightarrow> Some (Inr ((total_found, new_flights), st')))"

text \<open>
  The words of the specification, to state the scan's result: a code counts as absent
  or empty when \<open>fd.get\<close> gives None or the empty string; \<open>first_gap fd n\<close>
  says that \<open>TP1\<close> .. \<open>TPn\<close> are present and non-empty and \<open>TP(n+1)\<close> is not.
\<close>

definition blank :: "json \<Rightarrow> bool" where
  "blank v = (v = JNull \<or> v = JStr [])"

definition present :: "json \<Rightarrow> json list" where
  "present v = (if blank v then [] else [v])"

definition first_gap :: "flight_details \<Rightarrow> nat \<Rightarrow> bool" where
  "first_gap fd n = ((\<forall>j<n. \<not> blank (dict_get fd (tp_key (Suc j))))
     \<and> blank (dict_get fd (tp_key (Suc n))))"









definition new_trace :: "world \<Rightarrow> json \<Rightarrow> string \<Rightarrow> state \<Rightarrow> trace_row" where
  "new_trace w name h st = \<lparr>trace_id = next_rowid (map trace_id (trace st)),
     downloaded_at = now w st, original_filename = to_sql name, sha256_hash = h\<rparr>"

text \<open>
  For the Flight Ingestor: task ids are the numbers below their count, as insert_task leaves them; the Flight rows stored for a ladder id; the task rows stored for a task id.
\<close>

definition dense_task_ids :: "state \<Rightarrow> bool" where
  "dense_task_ids st = (set (map task_id (task st)) = {0..<count_distinct_task_ids st})"


definition task_rows_of :: "int \<Rightarrow> state \<Rightarrow> task_row list" where
  "task_rows_of tid st = filter (\<lambda>r. task_id r = tid) (task st)"

text \<open>
  An example record with every field the Flight Ingestor reads and no turnpoints, and a ladder service that answers no request.
\<close>

definition example_flight :: flight_details where
  "example_flight =
     [(''FlightID'', JInt 42), (''Forename'', JStr ''Ann''), (''Surname'', JStr ''Lee''),
      (''PilotID'', JInt 7), (''ClubID'', JStr ''LAS''), (''Glider'', JStr ''ASK 21''),
      (''GliderCode'', JInt 3), (''Registration'', JStr ''G-ABCD''),
      (''LoggerFile'', JStr ''a.igc''), (''FlightDate'', JStr ''2021-06-01T00:00:00''),
      (''Weekend'', JBool False), (''Junior'', JBool False), (''Height'', JBool False),
      (''TwoSeater'', JBool True), (''Wood'', JBool False), (''Wooden'', JBool False),
      (''Engine'', JBool False), (''Penalty'', JInt 0), (''Speed'', JInt 80),
      (''HandicapSpeed'', JInt 85), (''ScoringDistance'', JInt 300),
      (''SpeedPoints'', JInt 1000), (''HeightGain'', JInt 0), (''HeightPoints'', JInt 0),
      (''TotalPoints'', JInt 1000)]"

definition offline_world :: world where
  "offline_world = \<lparr>http = (\<lambda>q. None), clock = (\<lambda>n. n), strptime = (\<lambda>s. Some 0)\<rparr>"

text \<open>
  For the Pagination Driver: the query parameters before the page number is set; the request for a page; a source that answers the requests for pages p, p+1, ... with the given lists of records; lists of pages of which the last, and only the last, is short; the requests and the callback invocations these pages give rise to; a callback that records its invocations; and a ladder service that serves a fixed list of pages and nothing else.
\<close>

definition query_params :: "int \<Rightarrow> int option \<Rightarrow> int option \<Rightarrow> int option \<Rightarrow> (string \<times> int) list" where
  "query_params page_size query_season query_month query_day =
     [(''rows'', page_size)]
     @ (case query_season of None \<Rightarrow> [] | Some v \<Rightarrow> [(''Season'', v)])
     @ (case query_month of None \<Rightarrow> [] | Some v \<Rightarrow> [(''Month'', v)])
     @ (case query_day of None \<Rightarrow> [] | Some v \<Rightarrow> [(''Day'', v)])"

definition page_request :: "(string \<times> int) list \<Rightarrow> int \<Rightarrow> request" where
  "page_request base p = DailyScores (base @ [(''page'', p)])"

fun serves :: "world \<Rightarrow> (string \<times> int) list \<Rightarrow> int \<Rightarrow> flight_details list list \<Rightarrow> bool" where
  "serves w base p [] = True"
| "serves w base p (rows # pages) =
     (map_option json_rows (http w (page_request base p)) = Some rows
      \<and> serves w base (p + 1) pages)"

fun short_last :: "int \<Rightarrow> flight_details list list \<Rightarrow> bool" where
  "short_last page_size [] = False"
| "short_last page_size [rows] = (int (length rows) < page_size)"
| "short_last page_size (rows # rows2 # pages) =
     (page_size \<le> int (length rows) \<and> short_last page_size (rows2 # pages))"

fun page_requests :: "(string \<times> int) list \<Rightarrow> int \<Rightarrow> flight_details list list \<Rightarrow> request list" where
  "page_requests base p [] = []"
| "page_requests base p (rows # pages) = page_request base p # page_requests base (p + 1) pages"

fun callbacks :: "world \<Rightarrow> nat \<Rightarrow> flight_details list list \<Rightarrow> (datetime \<times> flight_details) list" where
  "callbacks w n [] = []"
| "callbacks w n (rows # pages) = map (Pair (clock w (Suc n))) rows @ callbacks w (Suc n) pages"

definition record_call ::
  "datetime \<Rightarrow> flight_details \<Rightarrow> (datetime \<times> flight_details) list \<times> state
    \<Rightarrow> error + (datetime \<times> flight_details) list \<times> state" where
  "record_call t fd cs = Inr (fst cs @ [(t, fd)], snd cs)"

definition paged_world :: "flight_details list list \<Rightarrow> world" where
  "paged_world pages =
     \<lparr>http = (\<lambda>q. case q of
          DailyScores ps \<Rightarrow>
            (case map_of ps ''page'' of
               Some p \<Rightarrow>
                 if 1 \<le> p \<and> p \<le> int (length pages)
                 then Some \<lparr>content = [], json_rows = pages ! nat (p - 1)\<rparr>
                 else None
             | None \<Rightarrow> None)
        | FlightIGC v \<Rightarrow> None),
      clock = (\<lambda>n. n), strptime = (\<lambda>s. None)\<rparr>"

section \<open>Task Decomposer: lemmas\<close>

lemma maybe_append_present: "snd (maybe_append v codes) = codes @ present v"
  by (simp add: maybe_append_def present_def blank_def)

lemma maybe_append_blank: "fst (maybe_append v codes) = (\<not> blank v)"
  by (simp add: maybe_append_def blank_def)

lemma tp_loop_stop: "blank (dict_get fd (tp_key i)) \<Longrightarrow> tp_loop fd i codes = codes"
  by (subst tp_loop.simps) (simp add: maybe_append_blank maybe_append_present present_def)

lemma tp_loop_step:
  "\<not> blank (dict_get fd (tp_key i)) \<Longrightarrow>
   tp_loop fd i codes = tp_loop fd (Suc i) (codes @ [dict_get fd (tp_key i)])"
  by (subst tp_loop.simps) (simp add: maybe_append_blank maybe_append_present present_def)

lemma tp_loop_gap:
  "\<forall>j<n. \<not> blank (dict_get fd (tp_key (i + j))) \<Longrightarrow>
   blank (dict_get fd (tp_key (i + n))) \<Longrightarrow>
   tp_loop fd i codes = codes @ map (\<lambda>j. dict_get fd (tp_key (i + j))) [0..<n]"
proof (induction n arbitrary: i codes)
  case 0
  then show ?case
    by (simp add: tp_loop_stop)
next
  case (Suc n)
  have here: "\<not> blank (dict_get fd (tp_key i))"
    using Suc.prems(1) [rule_format, of 0] by simp
  have rest: "\<forall>j<n. \<not> blank (dict_get fd (tp_key (Suc i + j)))"
  proof (intro allI impI)
    fix j assume "j < n"
    then have "Suc j < Suc n" by simp
    from Suc.prems(1) [rule_format, OF this] show "\<not> blank (dict_get fd (tp_key (Suc i + j)))"
      by simp
  qed
  have stop: "blank (dict_get fd (tp_key (Suc i + n)))"
    using Suc.prems(2) by simp
  have "tp_loop fd i codes = tp_loop fd (Suc i) (codes @ [dict_get fd (tp_key i)])"
    using here by (rule tp_loop_step)
  also have "\<dots> = (codes @ [dict_get fd (tp_key i)])
      @ map (\<lambda>j. dict_get fd (tp_key (Suc i + j))) [0..<n]"
    using rest stop by (rule Suc.IH)
  also have "\<dots> = codes @ map (\<lambda>j. dict_get fd (tp_key (i + j))) [0..<Suc n]"
    by (simp add: map_upt_Suc del: upt_Suc)
  finally show ?case .
qed

lemma first_gap_exists: "\<exists>n. first_gap fd n"
proof -
  have "\<exists>m. tp_key (Suc m) \<notin> fst ` set fd"
  proof (rule ccontr)
    assume "\<not> ?thesis"
    then have "range Suc \<subseteq> {j. tp_key j \<in> fst ` set fd}" by auto
    then have "finite (range Suc)"
      by (rule finite_subset) (rule finite_tp_indices)
    then show False
      by (simp add: finite_image_iff)
  qed
  then obtain m where "tp_key (Suc m) \<notin> fst ` set fd" ..
  then have "map_of fd (tp_key (Suc m)) = None"
    by (simp add: map_of_eq_None_iff)
  then have m: "blank (dict_get fd (tp_key (Suc m)))"
    by (simp add: dict_get_def blank_def)
  define n where "n = (LEAST j. blank (dict_get fd (tp_key (Suc j))))"
  have "blank (dict_get fd (tp_key (Suc n)))"
    unfolding n_def using m by (rule LeastI)
  moreover have "\<not> blank (dict_get fd (tp_key (Suc j)))" if "j < n" for j
    using that unfolding n_def by (rule not_less_Least)
  ultimately have "first_gap fd n"
    by (simp add: first_gap_def)
  then show ?thesis ..
qed

lemma first_gap_unique: "first_gap fd m \<Longrightarrow> first_gap fd n \<Longrightarrow> m = n"
proof (rule ccontr)
  assume a: "first_gap fd m" "first_gap fd n" and "m \<noteq> n"
  then consider "m < n" | "n < m" by linarith
  then show False
  proof cases
    case 1
    with a show False by (auto simp: first_gap_def)
  next
    case 2
    with a show False by (auto simp: first_gap_def)
  qed
qed

lemma turnpoint_codes_of_gap:
  assumes "first_gap fd n"
  shows "turnpoint_codes_of fd = present (dict_get fd ''StartPoint'')
     @ map (\<lambda>j. dict_get fd (tp_key (Suc j))) [0..<n] @ present (dict_get fd ''FinishPoint'')"
proof -
  from assms have "\<forall>j<n. \<not> blank (dict_get fd (tp_key (1 + j)))"
    and "blank (dict_get fd (tp_key (1 + n)))"
    by (simp_all add: first_gap_def)
  then have "tp_loop fd 1 (present (dict_get fd ''StartPoint''))
      = present (dict_get fd ''StartPoint'') @ map (\<lambda>j. dict_get fd (tp_key (1 + j))) [0..<n]"
    by (rule tp_loop_gap)
  then show ?thesis
    by (simp add: turnpoint_codes_of_def maybe_append_present)
qed

lemma task_rows_nth:
  "task_rows tid codes = map (\<lambda>i. \<lparr>task_id = tid, turnpoint_index = int i,
     turnpoint_code = to_sql (codes ! i)\<rparr>) [0..<length codes]"
  by (rule nth_equalityI) (simp_all add: task_rows_def nth_enumerate_eq)

section \<open>Task Decomposer: claims\<close>

text \<open>
  C2, as amended. The new Task id \<open>insert_task\<close> returns is the current count of
  distinct existing Task ids itself (the number of different ids in the task table), not
  that count plus one.
\<close>

theorem insert_task_id_is_count:
  "fst (insert_task fd st) = count_distinct_task_ids st
   \<and> count_distinct_task_ids st = int (card (task_id ` set (task st)))"
  by (simp add: insert_task_def Let_def count_distinct_task_ids_def length_remdups_card_conv)

text \<open>
  C2 as the specification states it fails: on a task table holding the two ids 0 and 1
  the id returned is 2, while the count of distinct ids plus one is 3.
\<close>

theorem insert_task_id_not_count_plus_one:
  "fst (insert_task []
      (empty_state\<lparr>task :=
        [\<lparr>task_id = 0, turnpoint_index = 0, turnpoint_code = SText ''A''\<rparr>,
         \<lparr>task_id = 0, turnpoint_index = 1, turnpoint_code = SText ''B''\<rparr>,
         \<lparr>task_id = 1, turnpoint_index = 0, turnpoint_code = SText ''C''\<rparr>]\<rparr>)) = 2
   \<and> count_distinct_task_ids
      (empty_state\<lparr>task :=
        [\<lparr>task_id = 0, turnpoint_index = 0, turnpoint_code = SText ''A''\<rparr>,
         \<lparr>task_id = 0, turnpoint_index = 1, turnpoint_code = SText ''B''\<rparr>,
         \<lparr>task_id = 1, turnpoint_index = 0, turnpoint_code = SText ''C''\<rparr>]\<rparr>) + 1 = 3"
  by (simp add: insert_task_def Let_def count_distinct_task_ids_def empty_state_def)

text \<open>
  C4. The scan over \<open>TP1\<close>, \<open>TP2\<close>, ... always meets a first missing or empty key.
  With \<open>n\<close> the number of keys before it, the turnpoint sequence is the StartPoint
  code if present and non-empty, then the codes of \<open>TP1\<close> .. \<open>TPn\<close> in index order
  (nothing after the gap), then the FinishPoint code if present and non-empty; the rows
  appended to the task table are these codes, each with its 0-based position.
\<close>

theorem insert_task_turnpoint_sequence:
  "(\<exists>n. first_gap fd n) \<and>
   (\<forall>n. first_gap fd n \<longrightarrow>
      turnpoint_codes_of fd = present (dict_get fd ''StartPoint'')
        @ map (\<lambda>j. dict_get fd (tp_key (Suc j))) [0..<n] @ present (dict_get fd ''FinishPoint'')
      \<and> task (snd (insert_task fd st)) = task st
        @ map (\<lambda>i. \<lparr>task_id = fst (insert_task fd st), turnpoint_index = int i,
             turnpoint_code = to_sql (turnpoint_codes_of fd ! i)\<rparr>)
           [0..<length (turnpoint_codes_of fd)])"
proof (intro conjI allI impI)
  show "\<exists>n. first_gap fd n"
    by (rule first_gap_exists)
next
  fix n assume "first_gap fd n"
  then show "turnpoint_codes_of fd = present (dict_get fd ''StartPoint'')
      @ map (\<lambda>j. dict_get fd (tp_key (Suc j))) [0..<n] @ present (dict_get fd ''FinishPoint'')"
    by (rule turnpoint_codes_of_gap)
next
  fix n
  show "task (snd (insert_task fd st)) = task st
      @ map (\<lambda>i. \<lparr>task_id = fst (insert_task fd st), turnpoint_index = int i,
           turnpoint_code = to_sql (turnpoint_codes_of fd ! i)\<rparr>)
         [0..<length (turnpoint_codes_of fd)]"
    by (simp add: insert_task_def Let_def task_rows_nth)
qed

text \<open>
  C4 on the specification's two examples: the record with StartPoint A, TP1 B, TP2 C and
  FinishPoint D gives [A, B, C, D] at positions 0..3; with TP1, TP2 and TP4 present and
  TP3 absent only TP1 and TP2 are captured.
\<close>

theorem insert_task_turnpoint_sequence_witness:
  "first_gap [(''StartPoint'', JStr ''A''), (''TP1'', JStr ''B''), (''TP2'', JStr ''C''),
      (''FinishPoint'', JStr ''D'')] 2
   \<and> turnpoint_codes_of [(''StartPoint'', JStr ''A''), (''TP1'', JStr ''B''),
      (''TP2'', JStr ''C''), (''FinishPoint'', JStr ''D'')]
     = [JStr ''A'', JStr ''B'', JStr ''C'', JStr ''D'']
   \<and> task (snd (insert_task [(''StartPoint'', JStr ''A''), (''TP1'', JStr ''B''),
      (''TP2'', JStr ''C''), (''FinishPoint'', JStr ''D'')] empty_state))
     = [\<lparr>task_id = 0, turnpoint_index = 0, turnpoint_code = SText ''A''\<rparr>,
        \<lparr>task_id = 0, turnpoint_index = 1, turnpoint_code = SText ''B''\<rparr>,
        \<lparr>task_id = 0, turnpoint_index = 2, turnpoint_code = SText ''C''\<rparr>,
        \<lparr>task_id = 0, turnpoint_index = 3, turnpoint_code = SText ''D''\<rparr>]
   \<and> first_gap [(''TP1'', JStr ''B''), (''TP2'', JStr ''C''), (''TP4'', JStr ''E'')] 2
   \<and> turnpoint_codes_of [(''TP1'', JStr ''B''), (''TP2'', JStr ''C''), (''TP4'', JStr ''E'')]
     = [JStr ''B'', JStr ''C'']"
proof -
  have g1: "first_gap [(''StartPoint'', JStr ''A''), (''TP1'', JStr ''B''), (''TP2'', JStr ''C''),
      (''FinishPoint'', JStr ''D'')] 2"
    by (simp add: first_gap_def blank_def dict_get_def tp_key_def show_nat.simps
        digit_char_def less_Suc_eq numeral_2_eq_2)
  have g2: "first_gap [(''TP1'', JStr ''B''), (''TP2'', JStr ''C''), (''TP4'', JStr ''E'')] 2"
    by (simp add: first_gap_def blank_def dict_get_def tp_key_def show_nat.simps
        digit_char_def less_Suc_eq numeral_2_eq_2)
  have tid: "fst (insert_task fd empty_state) = 0" for fd
    by (simp add: insert_task_def Let_def count_distinct_task_ids_def empty_state_def)
  have e: "task empty_state = []"
    by (simp add: empty_state_def)
  note t1 = insert_task_turnpoint_sequence [of _ empty_state, THEN conjunct2, rule_format, OF g1]
  note t2 = insert_task_turnpoint_sequence [of _ empty_state, THEN conjunct2, rule_format, OF g2]
  show ?thesis
    using g1 g2 by (simp add: t1 t2 tid e present_def blank_def dict_get_def tp_key_def
        show_nat.simps digit_char_def eval_nat_numeral)
qed

section \<open>Entity Resolver: lemmas\<close>

lemma bind_err_simps [simp]:
  "bind_err (Inl e) f = Inl e" "bind_err (Inr x) f = f x"
  by (simp_all add: bind_err_def)

lemma sql_eq_simps [simp]:
  "sql_eq a (SInt l) = (a = SInt l)" "sql_eq a (SText t) = (a = SText t)" "sql_eq a SNull = False"
  by (auto simp: sql_eq_def)

lemma find_snoc:
  "find P (xs @ [x]) = (case find P xs of None \<Rightarrow> (if P x then Some x else None) | Some y \<Rightarrow> Some y)"
  by (induction xs) simp_all












section \<open>Entity Resolver: claims\<close>




section \<open>Trace Archiver: lemmas\<close>

lemma length_first_primes: "length first_primes = 64"
  by code_simp

lemma length_sha256_round: "length (sha256_round kw s) = length s"
  by (cases "(kw, s)" rule: sha256_round.cases) (simp_all add: Let_def)

lemma length_fold_sha256_round: "length (fold sha256_round kws s) = length s"
  by (induction kws arbitrary: s) (simp_all add: length_sha256_round)

lemma length_sha256_block: "length (sha256_block hs block) = length hs"
  by (simp add: sha256_block_def length_fold_sha256_round)

lemma length_sha256_blocks: "length (sha256_blocks n hs bs) = length hs"
  by (induction n arbitrary: hs bs) (simp_all add: length_sha256_block)

lemma length_sha256: "length (sha256 m) = 8"
  by (simp add: sha256_def length_sha256_blocks H256_def length_first_primes)

lemma length_hex32: "length (hex32 w) = 8"
  by (simp add: hex32_def)

lemma length_concat_hex32: "length (concat (map hex32 ws)) = 8 * length ws"
  by (induction ws) (simp_all add: length_hex32)

lemma length_sha256_hexdigest: "length (sha256_hexdigest m) = 64"
  by (simp add: sha256_hexdigest_def length_concat_hex32 length_sha256)

lemma hex_digit_mem: "n < 16 \<Longrightarrow> hex_digit n \<in> set ''0123456789abcdef''"
  unfolding hex_digit_def by (rule nth_mem) simp

lemma unat_and_15: "unat (w AND (15 :: 32 word)) < 16"
proof -
  have "w AND 15 \<le> 15"
    by (rule word_and_le1)
  then have "unat (w AND 15) \<le> unat (15 :: 32 word)"
    by (simp add: word_le_nat_alt)
  then show ?thesis by simp
qed

lemma set_hex32: "set (hex32 w) \<subseteq> set ''0123456789abcdef''"
  unfolding hex32_def using hex_digit_mem [OF unat_and_15] by auto

lemma set_concat_map_subset: "(\<And>x. set (f x) \<subseteq> S) \<Longrightarrow> set (concat (map f xs)) \<subseteq> S"
  by (induction xs) simp_all

lemma set_sha256_hexdigest: "set (sha256_hexdigest m) \<subseteq> set ''0123456789abcdef''"
  unfolding sha256_hexdigest_def by (rule set_concat_map_subset) (rule set_hex32)

lemma select_trace_snoc:
  "select_trace h (st\<lparr>trace := trace st @ [t]\<rparr>)
     = (case select_trace h st of Some i \<Rightarrow> Some i
        | None \<Rightarrow> if sha256_hash t = h then Some (trace_id t) else None)"
  by (simp add: select_trace_def find_snoc split: option.splits)

lemma select_trace_requests [simp]:
  "select_trace h (st\<lparr>requests := rs\<rparr>) = select_trace h st"
  by (simp add: select_trace_def)

lemma select_trace_None: "select_trace h st = None \<longleftrightarrow> \<not> list_ex (\<lambda>t. sha256_hash t = h) (trace st)"
  by (auto simp: select_trace_def find_None_iff list_ex_iff)



lemma archive_new:
  assumes "dict_index fd ''FlightID'' = Inr v" "dict_index fd ''LoggerFile'' = Inr n"
    and "http w (FlightIGC v) = Some r"
    and "select_trace (sha256_hexdigest (content r)) st = None"
  shows "download_and_archive_trace w root fd st
     = Inr (Some (next_rowid (map trace_id (trace st))),
         st\<lparr>requests := requests st @ [FlightIGC v],
            files := (files st)(root @ archive_path (sha256_hexdigest (content r)) \<mapsto> content r),
            trace := trace st @ [new_trace w n (sha256_hexdigest (content r)) st]\<rparr>)"
proof -
  from assms(4) have "\<not> list_ex (\<lambda>t. sha256_hash t = sha256_hexdigest (content r)) (trace st)"
    by (simp add: select_trace_None)
  with assms show ?thesis
    by (simp add: download_and_archive_trace_def requests_get_def Let_def write_file_def
        insert_trace_def select_trace_def find_snoc fetchone_id_def new_trace_def now_def)
qed

section \<open>Trace Archiver: claims\<close>


lemma sha256_hello:
  "sha256_hexdigest [104, 101, 108, 108, 111]
     = ''2cf24dba5fb0a30e26e83b2ac5b9e29e1b161e5c1fa7425e73043362938b9824''"
  by code_simp


text \<open>
  C6. Downloaded bytes whose hash is not stored yet are written to the file
  \<open>archive_root/h[0]/h[1]/h\<close>, where \<open>h\<close> is the hexdigest of their SHA-256: 64
  characters, all lowercase hexadecimal digits. The file holds exactly the downloaded
  bytes and no other file is written.
\<close>

theorem archive_path_layout:
  assumes k: "dict_index fd ''FlightID'' = Inr v" "dict_index fd ''LoggerFile'' = Inr n"
    and r: "http w (FlightIGC v) = Some r"
    and new: "select_trace (sha256_hexdigest (content r)) st = None"
  shows "\<exists>i st'. download_and_archive_trace w root fd st = Inr (Some i, st')
     \<and> files st' = (files st)
          (root @ [[sha256_hexdigest (content r) ! 0], [sha256_hexdigest (content r) ! 1],
             sha256_hexdigest (content r)] \<mapsto> content r)
     \<and> files st' (root @ [[sha256_hexdigest (content r) ! 0],
             [sha256_hexdigest (content r) ! 1], sha256_hexdigest (content r)])
          = Some (content r)
     \<and> length (sha256_hexdigest (content r)) = 64
     \<and> set (sha256_hexdigest (content r)) \<subseteq> set ''0123456789abcdef''"
  using archive_new [OF k r new, of root] length_sha256_hexdigest [of "content r"]
    set_sha256_hexdigest [of "content r"]
  by (simp add: archive_path_def)


text \<open>
  C6 on the five bytes of \<open>hello\<close>, whose SHA-256 begins with \<open>2c\<close>: they are
  stored under \<open>traces/2/c/\<close> in the file named by the full digest.
\<close>

theorem archive_path_layout_witness:
  "dict_index [(''FlightID'', JInt 42), (''LoggerFile'', JStr ''a.igc'')] ''FlightID'' = Inr (JInt 42)
   \<and> select_trace (sha256_hexdigest [104, 101, 108, 108, 111]) empty_state = None
   \<and> (\<exists>i st'.
        download_and_archive_trace
          \<lparr>http = (\<lambda>q. Some \<lparr>content = [104, 101, 108, 108, 111], json_rows = []\<rparr>),
           clock = (\<lambda>n. n), strptime = (\<lambda>s. None)\<rparr>
          [''traces''] [(''FlightID'', JInt 42), (''LoggerFile'', JStr ''a.igc'')] empty_state
          = Inr (Some i, st')
        \<and> files st' [''traces'', ''2'', ''c'',
             ''2cf24dba5fb0a30e26e83b2ac5b9e29e1b161e5c1fa7425e73043362938b9824'']
          = Some [104, 101, 108, 108, 111])"
proof -
  let ?w = "\<lparr>http = (\<lambda>q. Some \<lparr>content = [104, 101, 108, 108, 111], json_rows = []\<rparr>),
    clock = (\<lambda>n. n), strptime = (\<lambda>s. None)\<rparr>"
  let ?fd = "[(''FlightID'', JInt 42), (''LoggerFile'', JStr ''a.igc'')]"
  have k: "dict_index ?fd ''FlightID'' = Inr (JInt 42)"
    "dict_index ?fd ''LoggerFile'' = Inr (JStr ''a.igc'')"
    by (simp_all add: dict_index_def)
  have r: "http ?w (FlightIGC (JInt 42)) = Some \<lparr>content = [104, 101, 108, 108, 111], json_rows = []\<rparr>"
    by simp
  have new: "select_trace (sha256_hexdigest (content \<lparr>content = [104, 101, 108, 108, 111],
      json_rows = []\<rparr>)) empty_state = None"
    by (simp add: select_trace_def empty_state_def)
  from archive_path_layout [OF k r new, of "[''traces'']"] k(1) new
  show ?thesis
    by (auto simp: sha256_hello)
qed

section \<open>Flight Ingestor: lemmas\<close>

lemma bind_err_Inr_iff: "bind_err m f = Inr y \<longleftrightarrow> (\<exists>x. m = Inr x \<and> f x = Inr y)"
  by (cases m) simp_all

lemma bind_err_Inl_iff:
  "bind_err m f = Inl e \<longleftrightarrow> m = Inl e \<or> (\<exists>x. m = Inr x \<and> f x = Inl e)"
  by (cases m) simp_all


lemma get_or_create_pilot_other_tables:
  assumes "get_or_create_pilot a b c st = Inr (i, st')"
  shows "flight st' = flight st" "task st' = task st"
  using assms
  by (auto simp: get_or_create_pilot_def insert_pilot_def bind_err_Inr_iff
      split: option.splits if_splits)

lemma get_or_create_club_other_tables:
  assumes "get_or_create_club a st = Inr (i, st')"
  shows "flight st' = flight st" "task st' = task st"
  using assms
  by (auto simp: get_or_create_club_def insert_club_def bind_err_Inr_iff
      split: option.splits if_splits)

lemma get_or_create_glider_model_other_tables:
  assumes "get_or_create_glider_model a b st = Inr (i, st')"
  shows "flight st' = flight st" "task st' = task st"
  using assms
  by (auto simp: get_or_create_glider_model_def insert_glider_model_def bind_err_Inr_iff
      split: option.splits if_splits)

lemma get_or_create_glider_other_tables:
  assumes "get_or_create_glider a b st = Inr (i, st')"
  shows "flight st' = flight st" "task st' = task st"
  using assms
  by (auto simp: get_or_create_glider_def insert_glider_def bind_err_Inr_iff
      split: option.splits if_splits)

lemma download_and_archive_trace_other_tables:
  assumes "download_and_archive_trace w root fd st = Inr (tr, st')"
  shows "flight st' = flight st" "task st' = task st"
  using assms
  by (auto simp: download_and_archive_trace_def requests_get_def insert_trace_def write_file_def
      bind_err_Inr_iff Let_def split: option.splits if_splits sum.splits)

lemma download_and_archive_trace_not_found:
  assumes "download_and_archive_trace w root fd st = Inr (tr, st')"
    and "dict_index fd ''FlightID'' = Inr v" and "http w (FlightIGC v) = None"
  shows "tr = None"
  using assms
  by (auto simp: download_and_archive_trace_def requests_get_def bind_err_Inr_iff Let_def)

lemma insert_task_flight: "flight (snd (insert_task fd st)) = flight st"
  by (simp add: insert_task_def Let_def)

lemma insert_flight_Inr:
  assumes "insert_flight fd p c g tr d t tid v st = Inr st'"
  shows "\<exists>row. st' = st\<lparr>flight := flight st @ [row]\<rparr> \<and> flight_ladder_id row = to_sql v
     \<and> flight_trace row = tr \<and> flight_task row = tid \<and> flight_pilot row = p
     \<and> flight_club row = c \<and> flight_glider row = g \<and> scraped_at row = t"
  using assms unfolding insert_flight_def bind_err_Inr_iff
  by (auto split: if_splits)

section \<open>Flight Ingestor: idempotence\<close>


lemma insert_bga_flight_Inr:
  assumes "insert_bga_flight w root fd t st = Inr st'"
  shows "\<exists>v s5 tr row. dict_index fd ''FlightID'' = Inr v \<and> select_flight (to_sql v) st = None
     \<and> flight s5 = flight st \<and> task s5 = task st
     \<and> (dict_index fd ''FlightID'' = Inr v \<and> http w (FlightIGC v) = None \<longrightarrow> tr = None)
     \<and> st' = (snd (insert_task fd s5))\<lparr>flight := flight st @ [row]\<rparr>
     \<and> flight_ladder_id row = to_sql v \<and> flight_trace row = tr
     \<and> flight_task row = fst (insert_task fd s5) \<and> scraped_at row = t"
proof -
  from assms obtain v a b c pid s1 cc cid s2 gn gc gmid s3 rg gid s4 tr s5 df d where
    v: "dict_index fd ''FlightID'' = Inr v" and sel: "select_flight (to_sql v) st = None"
    and p: "get_or_create_pilot a b c st = Inr (pid, s1)"
    and c: "get_or_create_club cc s1 = Inr (cid, s2)"
    and gm: "get_or_create_glider_model gn gc s2 = Inr (gmid, s3)"
    and g: "get_or_create_glider rg gmid s3 = Inr (gid, s4)"
    and dl: "download_and_archive_trace w root fd s4 = Inr (tr, s5)"
    and ins: "insert_flight fd pid cid gid tr d t (fst (insert_task fd s5)) v
        (snd (insert_task fd s5)) = Inr st'"
    by (auto simp: insert_bga_flight_def bind_err_Inr_iff Let_def split_beta
        split: if_splits)
  from insert_flight_Inr [OF ins] obtain row where
    row: "st' = (snd (insert_task fd s5))\<lparr>flight := flight (snd (insert_task fd s5)) @ [row]\<rparr>"
      "flight_ladder_id row = to_sql v" "flight_trace row = tr"
      "flight_task row = fst (insert_task fd s5)" "scraped_at row = t"
    by blast
  have fl: "flight s5 = flight st"
    using get_or_create_pilot_other_tables(1) [OF p] get_or_create_club_other_tables(1) [OF c]
      get_or_create_glider_model_other_tables(1) [OF gm]
      get_or_create_glider_other_tables(1) [OF g]
      download_and_archive_trace_other_tables(1) [OF dl]
    by simp
  have ta: "task s5 = task st"
    using get_or_create_pilot_other_tables(2) [OF p] get_or_create_club_other_tables(2) [OF c]
      get_or_create_glider_model_other_tables(2) [OF gm]
      get_or_create_glider_other_tables(2) [OF g]
      download_and_archive_trace_other_tables(2) [OF dl]
    by simp
  have nf: "dict_index fd ''FlightID'' = Inr v \<and> http w (FlightIGC v) = None \<longrightarrow> tr = None"
    using download_and_archive_trace_not_found [OF dl] by blast
  have st': "st' = (snd (insert_task fd s5))\<lparr>flight := flight st @ [row]\<rparr>"
    using row(1) fl by (simp add: insert_task_flight)
  show ?thesis
    apply (rule exI [of _ v], rule exI [of _ s5], rule exI [of _ tr], rule exI [of _ row])
    using v sel fl ta nf st' row(2-5) by simp
qed





section \<open>Flight Ingestor: partial failure\<close>

lemma example_ingest:
  "\<exists>st1. insert_bga_flight offline_world [''traces''] example_flight 5 empty_state = Inr st1"
  by (simp add: insert_bga_flight_def example_flight_def offline_world_def empty_state_def
      dict_index_def select_flight_def
      get_or_create_pilot_def select_pilot_def insert_pilot_def select_pilot_by_ladder_id_def
      get_or_create_club_def select_club_def insert_club_def
      get_or_create_glider_model_def select_glider_model_by_name_def insert_glider_model_def
      select_glider_model_by_ladder_id_def
      get_or_create_glider_def select_glider_def insert_glider_def
      fetchone_id_def next_rowid_def
      download_and_archive_trace_def requests_get_def now_def
      insert_task_def count_distinct_task_ids_def turnpoint_codes_of_def maybe_append_def
      dict_get_def tp_loop.simps tp_key_def show_nat.simps digit_char_def task_rows_def
      parse_flight_date_def insert_flight_def wood_or_wooden_def Let_def)

lemma dict_index_not_NotFound [simp]: "dict_index fd k \<noteq> Inl NotFound"
  by (simp add: dict_index_def split: option.splits)

lemma fetchone_id_not_NotFound [simp]: "fetchone_id r \<noteq> Inl NotFound"
  by (simp add: fetchone_id_def split: option.splits)

lemma get_or_create_pilot_not_NotFound [simp]: "get_or_create_pilot a b c st \<noteq> Inl NotFound"
  by (auto simp: get_or_create_pilot_def insert_pilot_def bind_err_Inl_iff split: option.splits)

lemma get_or_create_club_not_NotFound [simp]: "get_or_create_club a st \<noteq> Inl NotFound"
  by (auto simp: get_or_create_club_def insert_club_def bind_err_Inl_iff split: option.splits)

lemma get_or_create_glider_model_not_NotFound [simp]:
  "get_or_create_glider_model a b st \<noteq> Inl NotFound"
  by (auto simp: get_or_create_glider_model_def insert_glider_model_def bind_err_Inl_iff
      split: option.splits)

lemma get_or_create_glider_not_NotFound [simp]: "get_or_create_glider a b st \<noteq> Inl NotFound"
  by (auto simp: get_or_create_glider_def insert_glider_def bind_err_Inl_iff split: option.splits)

lemma download_and_archive_trace_not_NotFound [simp]:
  "download_and_archive_trace w root fd st \<noteq> Inl NotFound"
  by (auto simp: download_and_archive_trace_def requests_get_def insert_trace_def
      bind_err_Inl_iff Let_def split: option.splits sum.splits)

lemma parse_flight_date_not_NotFound [simp]: "parse_flight_date w v \<noteq> Inl NotFound"
  by (simp add: parse_flight_date_def split: json.splits option.splits)

lemma wood_or_wooden_not_NotFound [simp]: "wood_or_wooden fd \<noteq> Inl NotFound"
  by (auto simp: wood_or_wooden_def bind_err_Inl_iff)

lemma insert_flight_not_NotFound [simp]:
  "insert_flight fd p c g tr d t tid v st \<noteq> Inl NotFound"
  by (auto simp: insert_flight_def bind_err_Inl_iff)




section \<open>Flight Ingestor: flights without turnpoints\<close>


lemma tp_key_1: "tp_key (Suc 0) = ''TP1''"
  by (simp add: tp_key_def show_nat.simps digit_char_def)

lemma count_distinct_task_ids_cong:
  "task a = task b \<Longrightarrow> count_distinct_task_ids a = count_distinct_task_ids b"
  by (simp add: count_distinct_task_ids_def)

lemma turnpoint_codes_of_blank:
  assumes "blank (dict_get fd ''StartPoint'')" "blank (dict_get fd ''TP1'')"
    "blank (dict_get fd ''FinishPoint'')"
  shows "turnpoint_codes_of fd = []"
proof -
  from assms(2) have "tp_loop fd (Suc 0) [] = []"
    by (intro tp_loop_stop) (simp add: tp_key_1)
  with assms(1,3) show ?thesis
    by (simp add: turnpoint_codes_of_def maybe_append_present present_def)
qed

lemma insert_task_blank:
  assumes "blank (dict_get fd ''StartPoint'')" "blank (dict_get fd ''TP1'')"
    "blank (dict_get fd ''FinishPoint'')"
  shows "insert_task fd st = (count_distinct_task_ids st, st)"
  by (simp add: insert_task_def Let_def turnpoint_codes_of_blank [OF assms] task_rows_def)

lemma dense_task_ids_fresh:
  assumes "dense_task_ids st"
  shows "task_rows_of (count_distinct_task_ids st) st = []"
proof -
  from assms have "count_distinct_task_ids st \<notin> set (map task_id (task st))"
    by (simp add: dense_task_ids_def del: set_map)
  then show ?thesis
    unfolding task_rows_of_def filter_empty_conv by (metis image_eqI set_map)
qed

lemma dense_task_ids_empty: "dense_task_ids empty_state"
  by (simp add: dense_task_ids_def empty_state_def count_distinct_task_ids_def)

lemma set_task_rows_ids:
  "set (map task_id (task_rows tid codes)) = (if codes = [] then {} else {tid})"
  by (simp add: task_rows_nth comp_def image_constant_conv)

lemma dense_task_ids_insert_task:
  assumes "dense_task_ids st"
  shows "dense_task_ids (snd (insert_task fd st))"
proof (cases "turnpoint_codes_of fd = []")
  case True
  with assms show ?thesis
    by (simp add: insert_task_def Let_def task_rows_def)
next
  case False
  let ?n = "count_distinct_task_ids st"
  have n0: "0 \<le> ?n"
    by (simp add: count_distinct_task_ids_def)
  from assms have old: "set (map task_id (task st)) = {0..<?n}"
    by (simp add: dense_task_ids_def)
  have "set (map task_id (task (snd (insert_task fd st))))
      = set (map task_id (task st)) \<union> set (map task_id (task_rows ?n (turnpoint_codes_of fd)))"
    by (simp add: insert_task_def Let_def)
  also have "\<dots> = {0..<?n} \<union> {?n}"
    using False by (simp only: old set_task_rows_ids if_False)
  also have "\<dots> = {0..<?n + 1}"
    using n0 by auto
  finally have new: "set (map task_id (task (snd (insert_task fd st)))) = {0..<?n + 1}" .
  have "count_distinct_task_ids (snd (insert_task fd st))
      = int (card (set (map task_id (task (snd (insert_task fd st))))))"
    by (simp add: count_distinct_task_ids_def length_remdups_card_conv)
  also have "\<dots> = ?n + 1"
    using n0 by (simp only: new) simp
  finally show ?thesis
    using new by (simp add: dense_task_ids_def)
qed

lemma dense_task_ids_cong: "task a = task b \<Longrightarrow> dense_task_ids a = dense_task_ids b"
  by (simp add: dense_task_ids_def count_distinct_task_ids_def)

lemma task_rows_of_cong: "task a = task b \<Longrightarrow> task_rows_of i a = task_rows_of i b"
  by (simp add: task_rows_of_def)

lemma dense_task_ids_insert_bga_flight:
  assumes "dense_task_ids st" and "insert_bga_flight w root fd t st = Inr st'"
  shows "dense_task_ids st'"
proof -
  from insert_bga_flight_Inr [OF assms(2)] obtain s5 row where
    s5: "task s5 = task st" and st': "st' = (snd (insert_task fd s5))\<lparr>flight := flight st @ [row]\<rparr>"
    by auto
  from assms(1) dense_task_ids_cong [OF s5] have "dense_task_ids s5"
    by simp
  then have "dense_task_ids (snd (insert_task fd s5))"
    by (rule dense_task_ids_insert_task)
  moreover have "task st' = task (snd (insert_task fd s5))"
    by (simp add: st')
  ultimately show ?thesis
    using dense_task_ids_cong [of st' "snd (insert_task fd s5)"] by simp
qed

text \<open>
  C10. For a flight record whose StartPoint, TP1 and FinishPoint are each absent or empty
  the Task Decomposer returns the count of distinct task ids as the task id and writes no
  row: the state is unchanged. In a database whose task ids are the numbers below their
  count (the empty table is, and every ingestion keeps it so) no task row carries that
  id, and a completed ingestion of the record leaves the task table as it was and adds a
  Flight row whose task id has no rows in it.
\<close>

theorem ingest_without_turnpoints:
  "blank (dict_get fd ''StartPoint'') \<and> blank (dict_get fd ''TP1'')
      \<and> blank (dict_get fd ''FinishPoint'') \<longrightarrow>
     insert_task fd st = (count_distinct_task_ids st, st)
     \<and> (dense_task_ids st \<longrightarrow> task_rows_of (count_distinct_task_ids st) st = [])
     \<and> (dense_task_ids st \<and> insert_bga_flight w root fd t st = Inr st' \<longrightarrow>
          (\<exists>row. flight st' = flight st @ [row]
             \<and> flight_task row = count_distinct_task_ids st
             \<and> task st' = task st
             \<and> task_rows_of (flight_task row) st' = []))"
proof (intro impI conjI)
  assume b: "blank (dict_get fd ''StartPoint'') \<and> blank (dict_get fd ''TP1'')
      \<and> blank (dict_get fd ''FinishPoint'')"
  then show "insert_task fd st = (count_distinct_task_ids st, st)"
    by (simp add: insert_task_blank)
next
  assume "dense_task_ids st"
  then show "task_rows_of (count_distinct_task_ids st) st = []"
    by (rule dense_task_ids_fresh)
next
  assume b: "blank (dict_get fd ''StartPoint'') \<and> blank (dict_get fd ''TP1'')
      \<and> blank (dict_get fd ''FinishPoint'')"
    and a: "dense_task_ids st \<and> insert_bga_flight w root fd t st = Inr st'"
  then have dense: "dense_task_ids st" and ok: "insert_bga_flight w root fd t st = Inr st'"
    by simp_all
  from insert_bga_flight_Inr [OF ok] obtain s5 row where
    s5: "task s5 = task st"
    and st': "st' = (snd (insert_task fd s5))\<lparr>flight := flight st @ [row]\<rparr>"
    and row: "flight_task row = fst (insert_task fd s5)"
    by auto
  from b have ins: "insert_task fd s5 = (count_distinct_task_ids s5, s5)"
    by (simp add: insert_task_blank)
  have cnt: "count_distinct_task_ids s5 = count_distinct_task_ids st"
    using s5 by (rule count_distinct_task_ids_cong)
  have fl: "flight st' = flight st @ [row]"
    by (simp add: st')
  have ft: "flight_task row = count_distinct_task_ids st"
    by (simp add: row ins cnt)
  have ta: "task st' = task st"
    by (simp add: st' ins s5)
  have "task_rows_of (count_distinct_task_ids st) st' = task_rows_of (count_distinct_task_ids st) st"
    using ta by (rule task_rows_of_cong)
  with dense have "task_rows_of (flight_task row) st' = []"
    by (simp add: ft dense_task_ids_fresh)
  with fl ft ta show "\<exists>row. flight st' = flight st @ [row]
      \<and> flight_task row = count_distinct_task_ids st
      \<and> task st' = task st
      \<and> task_rows_of (flight_task row) st' = []"
    by blast
qed

text \<open>
  C10 on the example record, which names no turnpoint, ingested into an empty database:
  the Flight row refers to task 0 and the task table stays empty.
\<close>

theorem ingest_without_turnpoints_witness:
  "blank (dict_get example_flight ''StartPoint'') \<and> blank (dict_get example_flight ''TP1'')
   \<and> blank (dict_get example_flight ''FinishPoint'')
   \<and> dense_task_ids empty_state
   \<and> insert_task example_flight empty_state = (0, empty_state)
   \<and> (\<exists>st' row. insert_bga_flight offline_world [''traces''] example_flight 5 empty_state = Inr st'
        \<and> flight st' = [row] \<and> flight_task row = 0 \<and> task st' = []
        \<and> task_rows_of (flight_task row) st' = [])"
proof -
  have b: "blank (dict_get example_flight ''StartPoint'') \<and> blank (dict_get example_flight ''TP1'')
      \<and> blank (dict_get example_flight ''FinishPoint'')"
    by (simp add: blank_def dict_get_def example_flight_def)
  have cnt: "count_distinct_task_ids empty_state = 0" and e: "flight empty_state = []"
    "task empty_state = []"
    by (simp_all add: count_distinct_task_ids_def empty_state_def)
  from example_ingest obtain st1 where
    st1: "insert_bga_flight offline_world [''traces''] example_flight 5 empty_state = Inr st1" ..
  note t = ingest_without_turnpoints [of example_flight empty_state offline_world "[''traces'']" 5
      st1, rule_format, OF b]
  from t [THEN conjunct2, THEN conjunct2, rule_format, OF conjI [OF dense_task_ids_empty st1]]
    t [THEN conjunct1] b dense_task_ids_empty st1
  show ?thesis
    by (auto simp: cnt e)
qed

section \<open>Pagination Driver: lemmas and claims\<close>

lemma dict_set_page:
  assumes "''page'' \<notin> fst ` set base"
  shows "dict_set ''page'' p base = base @ [(''page'', p)]"
    and "dict_set ''page'' p (base @ [(''page'', q)]) = base @ [(''page'', p)]"
proof -
  show "dict_set ''page'' p base = base @ [(''page'', p)]"
    using assms by (simp add: dict_set_def)
  have "map (\<lambda>(k', v'). if k' = ''page'' then (''page'', p) else (k', v')) base = base"
    using assms by (induction base) auto
  then show "dict_set ''page'' p (base @ [(''page'', q)]) = base @ [(''page'', p)]"
    by (simp add: dict_set_def)
qed

lemma query_params_no_page: "''page'' \<notin> fst ` set (query_params n s m d)"
  by (cases s; cases m; cases d) (simp_all add: query_params_def)

lemma get_daily_flights_query_params:
  "get_daily_flights w process s m d n cs
     = get_daily_flights_loop w process n (query_params n s m d) 1 0 cs"
  by (simp add: get_daily_flights_def query_params_def dict_set_def Let_def split: option.splits)

lemma for_each_record_call:
  "for_each (record_call t) rows (calls, st) = Inr (calls @ map (Pair t) rows, st)"
  by (induction rows arbitrary: calls) (simp_all add: record_call_def)

lemma length_page_requests: "length (page_requests base p pages) = length pages"
  by (induction pages arbitrary: p) simp_all

lemma nth_page_requests:
  "i < length pages \<Longrightarrow> page_requests base p pages ! i = page_request base (p + int i)"
proof (induction pages arbitrary: p i)
  case Nil
  then show ?case by simp
next
  case (Cons rows pages)
  then show ?case by (cases i) (simp_all add: add.assoc)
qed

lemma callbacks_records: "map snd (callbacks w n pages) = concat pages"
  by (induction pages arbitrary: n) (simp_all add: comp_def)

lemma get_daily_flights_loop_step:
  assumes np: "''page'' \<notin> fst ` set base"
    and params: "params = base \<or> (\<exists>q. params = base @ [(''page'', q)])"
    and r: "http w (page_request base p) = Some r"
  shows "get_daily_flights_loop w record_call n params p found (calls, st)
     = (if int (length (json_rows r)) < n
        then Some (Inr (found + int (length (json_rows r)),
               calls @ map (Pair (clock w (Suc (length (requests st))))) (json_rows r),
               st\<lparr>requests := requests st @ [page_request base p]\<rparr>))
        else get_daily_flights_loop w record_call n (base @ [(''page'', p)]) (p + 1)
               (found + int (length (json_rows r)))
               (calls @ map (Pair (clock w (Suc (length (requests st))))) (json_rows r),
                st\<lparr>requests := requests st @ [page_request base p]\<rparr>))"
proof -
  from params np have ds: "dict_set ''page'' p params = base @ [(''page'', p)]"
    by (auto simp: dict_set_page)
  show ?thesis
    using r
    by (subst get_daily_flights_loop.simps)
      (simp add: ds requests_get_def now_def for_each_record_call page_request_def)
qed

lemma get_daily_flights_loop_pages:
  assumes np: "''page'' \<notin> fst ` set base"
  shows "short_last n pages \<Longrightarrow> serves w base p pages \<Longrightarrow>
     params = base \<or> (\<exists>q. params = base @ [(''page'', q)]) \<Longrightarrow>
     get_daily_flights_loop w record_call n params p found (calls, st)
       = Some (Inr (found + int (length (concat pages)),
           calls @ callbacks w (length (requests st)) pages,
           st\<lparr>requests := requests st @ page_requests base p pages\<rparr>))"
proof (induction n pages arbitrary: p params found calls st rule: short_last.induct)
  case (1 n)
  then show ?case by simp
next
  case (2 n rows)
  from "2.prems"(2) obtain r where r: "http w (page_request base p) = Some r"
    and rows: "json_rows r = rows"
    by auto
  from "2.prems"(1) rows have "int (length (json_rows r)) < n"
    by simp
  with get_daily_flights_loop_step [OF np "2.prems"(3) r, of n found calls st] rows
  show ?case
    by simp
next
  case (3 n rows rows2 pages)
  from "3.prems"(2) obtain r where r: "http w (page_request base p) = Some r"
    and rows: "json_rows r = rows"
    and rest: "serves w base (p + 1) (rows2 # pages)"
    by auto
  from "3.prems"(1) rows have full: "\<not> int (length (json_rows r)) < n"
    and short: "short_last n (rows2 # pages)"
    by simp_all
  have "get_daily_flights_loop w record_call n params p found (calls, st)
      = get_daily_flights_loop w record_call n (base @ [(''page'', p)]) (p + 1)
          (found + int (length rows))
          (calls @ map (Pair (clock w (Suc (length (requests st))))) rows,
           st\<lparr>requests := requests st @ [page_request base p]\<rparr>)"
    using get_daily_flights_loop_step [OF np "3.prems"(3) r, of n found calls st] full rows
    by simp
  also have "\<dots> = Some (Inr (found + int (length rows) + int (length (concat (rows2 # pages))),
      (calls @ map (Pair (clock w (Suc (length (requests st))))) rows)
        @ callbacks w (length (requests (st\<lparr>requests := requests st @ [page_request base p]\<rparr>)))
            (rows2 # pages),
      st\<lparr>requests := requests st @ [page_request base p]\<rparr>
        \<lparr>requests := requests (st\<lparr>requests := requests st @ [page_request base p]\<rparr>)
           @ page_requests base (p + 1) (rows2 # pages)\<rparr>))"
    by (rule "3.IH" [OF short rest]) blast
  finally show ?case
    by simp
qed

text \<open>
  C7. Let the source answer the requests for pages 1, 2, ... of a query with the lists
  \<open>pages\<close>, each but the last holding at least \<open>page_size\<close> records and the last
  fewer. Then the driver returns; it has issued exactly one request per page, in order,
  the \<open>i\<close>-th for page \<open>i\<close> (counted from 1) with \<open>rows = page_size\<close> and the
  filters passed in; it has called the callback once per record, in arrival order, and it
  returns the number of records seen. Every caller leaves \<open>page_size\<close> at 100.
\<close>

theorem get_daily_flights_pages:
  "short_last page_size pages \<and> serves w (query_params page_size s m d) 1 pages \<longrightarrow>
     get_daily_flights w record_call s m d page_size ([], st)
       = Some (Inr (int (length (concat pages)),
           callbacks w (length (requests st)) pages,
           st\<lparr>requests := requests st
              @ page_requests (query_params page_size s m d) 1 pages\<rparr>))
     \<and> map snd (callbacks w (length (requests st)) pages) = concat pages
     \<and> length (page_requests (query_params page_size s m d) 1 pages) = length pages
     \<and> (\<forall>i<length pages. page_requests (query_params page_size s m d) 1 pages ! i
           = DailyScores (query_params page_size s m d @ [(''page'', 1 + int i)]))
     \<and> map_of (query_params page_size s m d) ''rows'' = Some page_size"
proof (intro impI conjI allI)
  assume a: "short_last page_size pages \<and> serves w (query_params page_size s m d) 1 pages"
  then have "get_daily_flights_loop w record_call page_size (query_params page_size s m d) 1 0
      ([], st)
    = Some (Inr (0 + int (length (concat pages)),
        [] @ callbacks w (length (requests st)) pages,
        st\<lparr>requests := requests st @ page_requests (query_params page_size s m d) 1 pages\<rparr>))"
    by (intro get_daily_flights_loop_pages query_params_no_page) simp_all
  then show "get_daily_flights w record_call s m d page_size ([], st)
       = Some (Inr (int (length (concat pages)),
           callbacks w (length (requests st)) pages,
           st\<lparr>requests := requests st
              @ page_requests (query_params page_size s m d) 1 pages\<rparr>))"
    by (simp add: get_daily_flights_query_params)
next
  show "map snd (callbacks w (length (requests st)) pages) = concat pages"
    by (rule callbacks_records)
next
  show "length (page_requests (query_params page_size s m d) 1 pages) = length pages"
    by (rule length_page_requests)
next
  fix i assume "i < length pages"
  then show "page_requests (query_params page_size s m d) 1 pages ! i
      = DailyScores (query_params page_size s m d @ [(''page'', 1 + int i)])"
    by (simp add: nth_page_requests page_request_def)
next
  show "map_of (query_params page_size s m d) ''rows'' = Some page_size"
    by (simp add: query_params_def)
qed

lemma paged_world_serves:
  "http (paged_world pages) (page_request (query_params n (Some y) None None) p)
     = (if 1 \<le> p \<and> p \<le> int (length pages)
        then Some \<lparr>content = [], json_rows = pages ! nat (p - 1)\<rparr> else None)"
  by (simp add: paged_world_def page_request_def query_params_def)

text \<open>
  C7 on the specification's two sources, with a page size of 100 and the season 2021:
  pages of 100, 100 and 47 records give 247 records over three requests; pages of 100,
  100 and 100 records bring a fourth request, answered by an empty page.
\<close>

theorem get_daily_flights_pages_witness:
  "short_last 100 (map (\<lambda>k. replicate k example_flight) [100, 100, 47])
   \<and> serves (paged_world (map (\<lambda>k. replicate k example_flight) [100, 100, 47]))
        (query_params 100 (Some 2021) None None) 1
        (map (\<lambda>k. replicate k example_flight) [100, 100, 47])
   \<and> get_daily_flights (paged_world (map (\<lambda>k. replicate k example_flight) [100, 100, 47]))
        record_call (Some 2021) None None 100 ([], empty_state)
     = Some (Inr (247,
         callbacks (paged_world (map (\<lambda>k. replicate k example_flight) [100, 100, 47])) 0
           (map (\<lambda>k. replicate k example_flight) [100, 100, 47]),
         empty_state\<lparr>requests :=
           [DailyScores [(''rows'', 100), (''Season'', 2021), (''page'', 1)],
            DailyScores [(''rows'', 100), (''Season'', 2021), (''page'', 2)],
            DailyScores [(''rows'', 100), (''Season'', 2021), (''page'', 3)]]\<rparr>))
   \<and> get_daily_flights (paged_world (map (\<lambda>k. replicate k example_flight) [100, 100, 100, 0]))
        record_call (Some 2021) None None 100 ([], empty_state)
     = Some (Inr (300,
         callbacks (paged_world (map (\<lambda>k. replicate k example_flight) [100, 100, 100, 0])) 0
           (map (\<lambda>k. replicate k example_flight) [100, 100, 100, 0]),
         empty_state\<lparr>requests :=
           [DailyScores [(''rows'', 100), (''Season'', 2021), (''page'', 1)],
            DailyScores [(''rows'', 100), (''Season'', 2021), (''page'', 2)],
            DailyScores [(''rows'', 100), (''Season'', 2021), (''page'', 3)],
            DailyScores [(''rows'', 100), (''Season'', 2021), (''page'', 4)]]\<rparr>))"
proof -
  let ?P = "map (\<lambda>k. replicate k example_flight) [100, 100, 47]"
  let ?Q = "map (\<lambda>k. replicate k example_flight) [100, 100, 100, 0]"
  have sP: "short_last 100 ?P" and sQ: "short_last 100 ?Q"
    by simp_all
  have vP: "serves (paged_world ?P) (query_params 100 (Some 2021) None None) 1 ?P"
    and vQ: "serves (paged_world ?Q) (query_params 100 (Some 2021) None None) 1 ?Q"
    by (simp_all add: paged_world_serves)
  have e: "requests empty_state = []"
    by (simp add: empty_state_def)
  from get_daily_flights_pages [of 100 ?P "paged_world ?P" "Some 2021" None None empty_state,
      rule_format, OF conjI [OF sP vP], THEN conjunct1]
    get_daily_flights_pages [of 100 ?Q "paged_world ?Q" "Some 2021" None None empty_state,
      rule_format, OF conjI [OF sQ vQ], THEN conjunct1]
    sP vP
  show ?thesis
    by (simp add: e page_request_def query_params_def)
qed

text \<open>
  C3 fails on the code: \<open>scrape_day\<close> passes the day of the date as the month filter.
  For 15 March 2021 the request carries \<open>Month = 15\<close>, not \<open>Month = 3\<close>.
\<close>

theorem scrape_day_month_is_day:
  "scrape_day (paged_world [[]]) [''traces''] \<lparr>year = 2021, month = 3, day = 15\<rparr> empty_state
     = Some (Inr ((0, 0), empty_state\<lparr>requests :=
         [DailyScores [(''rows'', 100), (''Season'', 2021), (''Month'', 15), (''Day'', 15),
            (''page'', 1)]]\<rparr>))"
  by (simp add: scrape_day_def get_daily_flights_def Let_def dict_set_def)
    (subst get_daily_flights_loop.simps,
     simp add: dict_set_def requests_get_def paged_world_def empty_state_def)

end
